theory Spec2Isabelle
  imports Complex_Main "HOL-Library.Word" "HOL-Library.Log_Nat"
begin

section \<open>Values of the exporter\<close>

text \<open>
  \<^verbatim>\<open>main.go\<close> comes in two revisions, one after the other in the source file. The model
  follows the second one, which serves two metric families (the number of reports and the
  report resolution time) and the gauge \<^verbatim>\<open>errors\<close>; the first one has two more families
  in \<^verbatim>\<open>scrape\<close> and the same \<^verbatim>\<open>getNumReports\<close>, \<^verbatim>\<open>getResolvedStats\<close> and
  \<^verbatim>\<open>resolvedMetricFromNums\<close>.

  Conventions of the embedding:
  \<^item> a \<^verbatim>\<open>float64\<close> is the \<^typ>\<open>real\<close> number it stands for; addition and the
    conversion of an integer round to the nearest \<^verbatim>\<open>float64\<close>, ties to even (\<open>round64\<close>
    below), and comparison is the comparison of the numbers. NaN, the infinities and
    results beyond the largest finite \<^verbatim>\<open>float64\<close> are outside the model;
  \<^item> Go's \<^verbatim>\<open>uint64\<close> is \<^typ>\<open>64 word\<close>, so \<^verbatim>\<open>buckets[bucket]++\<close> wraps as in Go;
  \<^item> Go's \<^verbatim>\<open>int\<close> values are only scanned, counted up to two and converted, never
    subject to overflowing arithmetic; they are \<^typ>\<open>int\<close>;
  \<^item> an \<^verbatim>\<open>error\<close> is a value; a function that can panic returns \<open>error + 'a\<close> with
    \<open>Inl\<close> for the panic; a function that returns a Go pair \<^verbatim>\<open>(value, error)\<close> and can
    panic as well returns \<open>error + (error + 'a)\<close>, the outer \<open>Inl\<close> for the panic and the
    inner one for the returned error;
  \<^item> the channel \<^verbatim>\<open>ch\<close> is the list of metrics sent so far, in the order sent;
  \<^item> the log lines are not part of the model.
\<close>

datatype error = Err string | Errorf string error
  \<comment> \<open>\<open>Errorf p e\<close> is \<^verbatim>\<open>fmt.Errorf(p + ": %w", e)\<close>\<close>

record desc =
  fqName :: string
  helpText :: string
  variableLabels :: "string list"
  constLabels :: "(string \<times> string) list"

datatype valueType = CounterValue | GaugeValue | UntypedValue

record gaugeOpts =
  Namespace :: string
  Subsystem :: string
  Name :: string
  Help :: string

record gauge =
  opts :: gaugeOpts
  val :: real

datatype pool = Pool string
  \<comment> \<open>the handle of the connection pool, made from the database URL\<close>

record mastodonExporter =
  db :: pool
  numReports :: desc
  resolvedTimeSeconds :: desc
  errors :: gauge

text \<open>
  A \<^verbatim>\<open>prometheus.Metric\<close> on the channel. The two constant metrics carry their values.
  \<^verbatim>\<open>ch <- m.errors\<close> sends the exporter's gauge object itself, not a copy: the
  constructor \<open>ErrorsGauge\<close> is that reference, and the value a reader sees is the one
  the exporter holds when it reads (\<open>gaugeValue\<close> below).
\<close>

datatype metric =
    ConstMetric desc valueType real "string list"
  | ConstHistogram desc "64 word" real "real \<rightharpoonup> 64 word" "string list"
  | ErrorsGauge

section \<open>Arithmetic of float64\<close>

text \<open>
  The binary exponent of a number \<open>x \<noteq> 0\<close>, that is the integer \<open>k\<close> with
  \<open>2 ^ k \<le> \<bar>x\<bar> < 2 ^ (k + 1)\<close> (\<open>binaryExponent_bounds\<close> below), computed on integers.
\<close>

definition binaryExponent :: "real \<Rightarrow> int" where
  "binaryExponent x =
     (if 1 \<le> \<bar>x\<bar> then bitlen \<lfloor>\<bar>x\<bar>\<rfloor> - 1 else - int (ceillog2 (nat \<lceil>1 / \<bar>x\<bar>\<rceil>)))"

text \<open>The nearest integer, the even one of the two when both are equally near.\<close>

definition roundHalfEven :: "real \<Rightarrow> int" where
  "roundHalfEven y =
     (if y - of_int \<lfloor>y\<rfloor> < 1 / 2 then \<lfloor>y\<rfloor>
      else if 1 / 2 < y - of_int \<lfloor>y\<rfloor> then \<lfloor>y\<rfloor> + 1
      else if even \<lfloor>y\<rfloor> then \<lfloor>y\<rfloor> else \<lfloor>y\<rfloor> + 1)"

text \<open>
  The nearest \<^verbatim>\<open>float64\<close>: a significand of 53 bits, so the unit in the last place of
  \<open>x\<close> is \<open>2\<close> to the binary exponent of \<open>x\<close> less 52, and not below \<open>2 ^ - 1074\<close>, the
  least positive \<^verbatim>\<open>float64\<close>.
\<close>

definition round64 :: "real \<Rightarrow> real" where
  "round64 x =
     (if x = 0 then 0
      else of_int (roundHalfEven (x / 2 powi max (binaryExponent x - 52) (- 1074))) *
           2 powi max (binaryExponent x - 52) (- 1074))"

text \<open>The sum \<^verbatim>\<open>x + y\<close> of two \<^verbatim>\<open>float64\<close> and the conversion \<^verbatim>\<open>float64(n)\<close> of an \<^verbatim>\<open>int\<close>.\<close>

definition fadd :: "real \<Rightarrow> real \<Rightarrow> real" where
  "fadd x y = round64 (x + y)"

definition float64 :: "int \<Rightarrow> real" where
  "float64 n = round64 (of_int n)"

section \<open>The client library, as far as the exporter calls it\<close>

definition namespace :: string where "namespace = ''mastodon''"
definition subsystem :: string where "subsystem = ''exporter''"
definition exporterName :: string where "exporterName = ''mastodon_exporter''"

definition BuildFQName :: "string \<Rightarrow> string \<Rightarrow> string \<Rightarrow> string" where
  "BuildFQName ns sub name =
     (if name = [] then []
      else if ns \<noteq> [] \<and> sub \<noteq> [] then ns @ ''_'' @ sub @ ''_'' @ name
      else if ns \<noteq> [] then ns @ ''_'' @ name
      else if sub \<noteq> [] then sub @ ''_'' @ name
      else name)"

definition NewDesc :: "string \<Rightarrow> string \<Rightarrow> string list \<Rightarrow> (string \<times> string) list \<Rightarrow> desc" where
  "NewDesc fq h vls cls =
     \<lparr>fqName = fq, helpText = h, variableLabels = vls, constLabels = cls\<rparr>"

definition NewGauge :: "gaugeOpts \<Rightarrow> gauge" where
  "NewGauge os = \<lparr>opts = os, val = 0\<rparr>"

definition gaugeName :: "gauge \<Rightarrow> string" where
  "gaugeName g = BuildFQName (Namespace (opts g)) (Subsystem (opts g)) (Name (opts g))"

definition Set_gauge :: "gauge \<Rightarrow> real \<Rightarrow> gauge" where
  "Set_gauge g v = g\<lparr>val := v\<rparr>"

text \<open>
  The constructors of constant metrics refuse label values whose number differs from the
  number of variable labels of the descriptor; the \<^verbatim>\<open>Must\<close> variants panic with that
  error. The library's other refusals (a descriptor made from an invalid name, a label
  value that is not UTF-8) cannot arise from the names and label values written in
  \<^verbatim>\<open>main.go\<close> and are left out.
\<close>

definition validateLabelValues :: "string list \<Rightarrow> nat \<Rightarrow> error option" where
  "validateLabelValues vals expected =
     (if length vals \<noteq> expected then Some (Err ''inconsistent label cardinality'') else None)"

definition MustNewConstMetric :: "desc \<Rightarrow> valueType \<Rightarrow> real \<Rightarrow> string list \<Rightarrow> error + metric" where
  "MustNewConstMetric d vt v labelValues =
     (case validateLabelValues labelValues (length (variableLabels d)) of
        Some e \<Rightarrow> Inl e
      | None \<Rightarrow> Inr (ConstMetric d vt v labelValues))"

definition MustNewConstHistogram ::
    "desc \<Rightarrow> 64 word \<Rightarrow> real \<Rightarrow> (real \<rightharpoonup> 64 word) \<Rightarrow> string list \<Rightarrow> error + metric" where
  "MustNewConstHistogram d cnt s bks labelValues =
     (case validateLabelValues labelValues (length (variableLabels d)) of
        Some e \<Rightarrow> Inl e
      | None \<Rightarrow> Inr (ConstHistogram d cnt s bks labelValues))"

section \<open>The exporter\<close>

definition resolutionTimeBuckets :: "real list" where
  "resolutionTimeBuckets = [60, 600, 1800, 3600, 14400, 28800, 86400, 172800, 604800]"

definition newExporter :: "pool \<Rightarrow> mastodonExporter" where
  "newExporter p =
     \<lparr>db = p,
      numReports = NewDesc (BuildFQName namespace subsystem ''num_reports'')
        ''Number of reports for this Mastodon instance.'' [''resolved''] [],
      resolvedTimeSeconds = NewDesc (BuildFQName namespace subsystem ''resolved_time_seconds'')
        ''Time taken to resolve reports in this Mastodon instance.'' [] [],
      errors = NewGauge \<lparr>Namespace = namespace, Subsystem = subsystem, Name = ''errors'',
        Help = ''Number of errors encountered while querying.''\<rparr>\<rparr>"

subsection \<open>resolvedMetricFromNums\<close>

text \<open>
  \<^verbatim>\<open>buckets[bucket]++\<close> on a Go map: a missing key reads as zero, and the incremented
  value is stored under the key.
\<close>

definition mapIndex :: "(real \<rightharpoonup> 64 word) \<Rightarrow> real \<Rightarrow> 64 word" where
  "mapIndex buckets k = (case buckets k of None \<Rightarrow> 0 | Some c \<Rightarrow> c)"

definition increment :: "(real \<rightharpoonup> 64 word) \<Rightarrow> real \<Rightarrow> (real \<rightharpoonup> 64 word)" where
  "increment buckets k = buckets(k \<mapsto> mapIndex buckets k + 1)"

text \<open>The inner loop \<^verbatim>\<open>for _, bucket := range resolutionTimeBuckets\<close>, for one number.\<close>

fun bucketLoop :: "real \<Rightarrow> real list \<Rightarrow> (real \<rightharpoonup> 64 word) \<Rightarrow> (real \<rightharpoonup> 64 word)" where
  "bucketLoop num [] buckets = buckets"
| "bucketLoop num (bucket # rest) buckets =
     bucketLoop num rest (if num \<le> bucket then increment buckets bucket else buckets)"

text \<open>The outer loop \<^verbatim>\<open>for _, num := range numbers\<close>, on the pair of \<^verbatim>\<open>sum\<close> (written \<open>sumv\<close>, as \<open>sum\<close> is a constant of HOL) and \<^verbatim>\<open>buckets\<close>.\<close>

fun numbersLoop ::
    "real list \<Rightarrow> real list \<Rightarrow> real \<times> (real \<rightharpoonup> 64 word) \<Rightarrow> real \<times> (real \<rightharpoonup> 64 word)" where
  "numbersLoop bs [] (sumv, buckets) = (sumv, buckets)"
| "numbersLoop bs (num # rest) (sumv, buckets) =
     numbersLoop bs rest (fadd sumv num, bucketLoop num bs buckets)"

text \<open>
  The function reads the package variable \<^verbatim>\<open>resolutionTimeBuckets\<close>; \<open>resolvedMetricFromNumsWith\<close>
  takes its value as the first argument, and \<open>resolvedMetricFromNums\<close> is the function at
  the value the source gives the variable. \<^verbatim>\<open>sum\<close> starts at zero and \<^verbatim>\<open>buckets\<close> as the
  empty map of \<^verbatim>\<open>make\<close>.
\<close>

definition resolvedMetricFromNumsWith ::
    "real list \<Rightarrow> mastodonExporter \<Rightarrow> real list \<Rightarrow> error + metric" where
  "resolvedMetricFromNumsWith bs m numbers =
     (case numbersLoop bs numbers (0, Map.empty) of
        (sumv, buckets) \<Rightarrow>
          MustNewConstHistogram (resolvedTimeSeconds m) (of_nat (length numbers)) sumv buckets [])"

definition resolvedMetricFromNums :: "mastodonExporter \<Rightarrow> real list \<Rightarrow> error + metric" where
  "resolvedMetricFromNums m numbers = resolvedMetricFromNumsWith resolutionTimeBuckets m numbers"

subsection \<open>The queries\<close>

text \<open>
  What the database answers during one scrape, seen through the pool. \<open>reportsRow\<close> is
  the outcome of \<^verbatim>\<open>QueryRow(...).Scan(&resolved, &unresolved)\<close>. \<open>resolutionRows\<close> is the
  outcome of \<^verbatim>\<open>Query(...)\<close>: an error, or the rows. Of the rows, \<open>scanned\<close> lists, in the
  order \<^verbatim>\<open>rows.Next()\<close> delivers them, what \<^verbatim>\<open>row.Scan(&n)\<close> gives on each row (the
  decoded number or the error), and \<open>rowsErr\<close> is \<^verbatim>\<open>rows.Err()\<close> after the last row.
\<close>

type_synonym row = "error + real"

record rows =
  scanned :: "row list"
  rowsErr :: "error option"

record database =
  reportsRow :: "error + int \<times> int"
  resolutionRows :: "error + rows"

definition getNumReports :: "database \<Rightarrow> mastodonExporter \<Rightarrow> error + int \<times> int" where
  "getNumReports d m = reportsRow d"

text \<open>
  \<^verbatim>\<open>pgx.CollectRows\<close>: call the function on every row and append its value; the first
  error ends the collection with that error and no slice; after the last row the error
  of the rows, if any, does the same.
\<close>

fun collectLoop :: "row list \<Rightarrow> (row \<Rightarrow> error + 'a) \<Rightarrow> 'a list \<Rightarrow> error + 'a list" where
  "collectLoop [] fn collected = Inr collected"
| "collectLoop (r # rest) fn collected =
     (case fn r of
        Inl err \<Rightarrow> Inl err
      | Inr v \<Rightarrow> collectLoop rest fn (collected @ [v]))"

definition CollectRows :: "rows \<Rightarrow> (row \<Rightarrow> error + 'a) \<Rightarrow> error + 'a list" where
  "CollectRows rs fn =
     (case collectLoop (scanned rs) fn [] of
        Inl err \<Rightarrow> Inl err
      | Inr collected \<Rightarrow> (case rowsErr rs of Some err \<Rightarrow> Inl err | None \<Rightarrow> Inr collected))"

text \<open>The function literal that \<^verbatim>\<open>getResolvedStats\<close> passes to \<^verbatim>\<open>pgx.CollectRows\<close>.\<close>

definition scanRow :: "row \<Rightarrow> error + real" where
  "scanRow r = (case r of Inl err \<Rightarrow> Inl (Errorf ''scanning row'' err) | Inr n \<Rightarrow> Inr n)"

definition getResolvedStats :: "database \<Rightarrow> mastodonExporter \<Rightarrow> error + (error + metric)" where
  "getResolvedStats d m =
     (case resolutionRows d of
        Inl err \<Rightarrow> Inr (Inl (Errorf ''querying database'' err))
      | Inr rs \<Rightarrow>
          (case CollectRows rs scanRow of
             Inl err \<Rightarrow> Inr (Inl (Errorf ''scanning rows'' err))
           | Inr numbers \<Rightarrow>
               (case resolvedMetricFromNums m numbers of
                  Inl p \<Rightarrow> Inl p
                | Inr h \<Rightarrow> Inr (Inr h))))"

subsection \<open>scrape\<close>

text \<open>
  The \<^verbatim>\<open>else\<close> branch of the first family: the two sends of \<^verbatim>\<open>num_reports\<close>, in the order
  of the source. The second metric is built after the first is sent.
\<close>

definition sendNumReports ::
    "mastodonExporter \<Rightarrow> metric list \<Rightarrow> int \<Rightarrow> int \<Rightarrow> error + metric list" where
  "sendNumReports m ch resolved unresolved =
     (case MustNewConstMetric (numReports m) GaugeValue (float64 resolved) [''true''] of
        Inl p \<Rightarrow> Inl p
      | Inr t \<Rightarrow>
          (case MustNewConstMetric (numReports m) GaugeValue (float64 unresolved) [''false''] of
             Inl p \<Rightarrow> Inl p
           | Inr f \<Rightarrow> Inr ((ch @ [t]) @ [f])))"

text \<open>
  The result of \<open>scrape\<close> is the panic, or the metrics sent on the channel together with
  the exporter as the scrape leaves it: \<^verbatim>\<open>m.errors.Set\<close> writes the gauge the exporter
  holds. \<^verbatim>\<open>numErrors\<close> is local to the call. A panic ends the scrape; the result then
  keeps the panic only, not what was sent before it.
\<close>

definition scrape ::
    "database \<Rightarrow> mastodonExporter \<Rightarrow> error + metric list \<times> mastodonExporter" where
  "scrape d m =
     (case (case getNumReports d m of
              Inl err \<Rightarrow> Inr ([], (0::int) + 1)
            | Inr (resolved, unresolved) \<Rightarrow>
                (case sendNumReports m [] resolved unresolved of
                   Inl p \<Rightarrow> Inl p
                 | Inr ch \<Rightarrow> Inr (ch, 0))) of
        Inl p \<Rightarrow> Inl p
      | Inr (ch, numErrors) \<Rightarrow>
          (case (case getResolvedStats d m of
                   Inl p \<Rightarrow> Inl p
                 | Inr (Inl err) \<Rightarrow> Inr (ch, numErrors + 1)
                 | Inr (Inr resolvedHist) \<Rightarrow> Inr (ch @ [resolvedHist], numErrors)) of
             Inl p \<Rightarrow> Inl p
           | Inr (ch, numErrors) \<Rightarrow>
               Inr (ch @ [ErrorsGauge],
                    m\<lparr>errors := Set_gauge (errors m) (float64 numErrors)\<rparr>)))"

text \<open>What a reader of the channel sees of a metric while the exporter is in state \<open>m\<close>.\<close>

fun metricName :: "mastodonExporter \<Rightarrow> metric \<Rightarrow> string" where
  "metricName m (ConstMetric d vt v ls) = fqName d"
| "metricName m (ConstHistogram d c s bks ls) = fqName d"
| "metricName m ErrorsGauge = gaugeName (errors m)"

fun gaugeValue :: "mastodonExporter \<Rightarrow> metric \<Rightarrow> real option" where
  "gaugeValue m (ConstMetric d vt v ls) = (if vt = GaugeValue then Some v else None)"
| "gaugeValue m (ConstHistogram d c s bks ls) = None"
| "gaugeValue m ErrorsGauge = Some (val (errors m))"

section \<open>Notions used in the statements\<close>

text \<open>
  The exporter of \<open>newExporter\<close> with its gauge holding \<open>v\<close>: the states the exporter is
  in between scrapes (\<open>scrape_eq\<close> below), \<open>newExporter p\<close> being the one with \<open>v = 0\<close>.
\<close>

definition exporterAfter :: "pool \<Rightarrow> real \<Rightarrow> mastodonExporter" where
  "exporterAfter p v = (newExporter p)\<lparr>errors := Set_gauge (errors (newExporter p)) v\<rparr>"

text \<open>The number of families whose query function returned an error.\<close>

definition failedQueries :: "database \<Rightarrow> mastodonExporter \<Rightarrow> nat" where
  "failedQueries d m =
     (case getNumReports d m of Inl err \<Rightarrow> 1 | Inr c \<Rightarrow> 0) +
     (case getResolvedStats d m of Inr (Inl err) \<Rightarrow> 1 | _ \<Rightarrow> 0)"

text \<open>The entry of the bucket map of a built histogram under a key, if there is one.\<close>

definition bucketEntry :: "error + metric \<Rightarrow> real \<Rightarrow> 64 word option" where
  "bucketEntry r b = (case r of Inr (ConstHistogram d c s bks ls) \<Rightarrow> bks b | _ \<Rightarrow> None)"

text \<open>The sum of a built histogram.\<close>

definition histogramSum :: "error + metric \<Rightarrow> real option" where
  "histogramSum r = (case r of Inr (ConstHistogram d c s bks ls) \<Rightarrow> Some s | _ \<Rightarrow> None)"

text \<open>The values of the metrics sent, as a reader sees them in the exporter state \<open>m\<close>.\<close>

definition sentValues :: "mastodonExporter \<Rightarrow> error + metric list \<Rightarrow> real option list" where
  "sentValues m r = (case r of Inl p \<Rightarrow> [] | Inr ch \<Rightarrow> map (gaugeValue m) ch)"

text \<open>
  No step of the loop \<^verbatim>\<open>sum += num\<close> rounds: starting from \<open>s\<close>, every partial sum of the
  numbers is a \<^verbatim>\<open>float64\<close>.
\<close>

fun noRounding :: "real \<Rightarrow> real list \<Rightarrow> bool" where
  "noRounding s [] = True"
| "noRounding s (d # ds) = (round64 (s + d) = s + d \<and> noRounding (s + d) ds)"

text \<open>The exporter a finished scrape leaves behind.\<close>

definition exporterOf :: "error + metric list \<times> mastodonExporter \<Rightarrow> mastodonExporter option" where
  "exporterOf r = (case r of Inl p \<Rightarrow> None | Inr (ch, m') \<Rightarrow> Some m')"

text \<open>The error classes of the two steps of \<^verbatim>\<open>getResolvedStats\<close>, told by their wrapping.\<close>

fun isQueryError :: "error \<Rightarrow> bool" where
  "isQueryError (Errorf msg e) = (msg = ''querying database'')"
| "isQueryError (Err msg) = False"

fun isRowScanError :: "error \<Rightarrow> bool" where
  "isRowScanError (Errorf msg (Errorf msg' e)) = (msg = ''scanning rows'' \<and> msg' = ''scanning row'')"
| "isRowScanError e = False"

text \<open>Sample answers of the database.\<close>

definition allDown :: database where
  "allDown = \<lparr>reportsRow = Inl (Err ''connection refused''),
              resolutionRows = Inl (Err ''connection refused'')\<rparr>"

definition reportsDown :: database where
  "reportsDown = \<lparr>reportsRow = Inl (Err ''connection refused''),
                  resolutionRows = Inr \<lparr>scanned = [Inr 45, Inr 500, Inr 3700], rowsErr = None\<rparr>\<rparr>"

definition badRow :: database where
  "badRow = \<lparr>reportsRow = Inr (3, 0),
             resolutionRows = Inr \<lparr>scanned = [Inr 45, Inl (Err ''cannot scan NULL''), Inr 3700],
                                    rowsErr = None\<rparr>\<rparr>"

definition streamCut :: database where
  "streamCut = \<lparr>reportsRow = Inr (3, 0),
                resolutionRows = Inr \<lparr>scanned = [Inr 45, Inr 500],
                                       rowsErr = Some (Err ''unexpected EOF'')\<rparr>\<rparr>"

definition allUp :: database where
  "allUp = \<lparr>reportsRow = Inr (3, 0),
            resolutionRows = Inr \<lparr>scanned = [Inr 45, Inr 500, Inr 3700], rowsErr = None\<rparr>\<rparr>"

text \<open>The \<^verbatim>\<open>float64\<close> nearest to one tenth and the one nearest to one fifth.\<close>

definition tenth :: real where
  "tenth = 3602879701896397 / 2 ^ 55"

definition fifth :: real where
  "fifth = 3602879701896397 / 2 ^ 54"

section \<open>Facts of float64\<close>

lemma roundHalfEven_of_int: "roundHalfEven (of_int m) = m"
  by (simp add: roundHalfEven_def)

lemma round64_exact:
  assumes "x / 2 powi max (binaryExponent x - 52) (- 1074) = of_int m"
  shows "round64 x = x"
proof (cases "x = 0")
  case True
  then show ?thesis by (simp add: round64_def)
next
  case False
  have p: "(2::real) powi max (binaryExponent x - 52) (- 1074) \<noteq> 0" by simp
  have "round64 x = of_int m * 2 powi max (binaryExponent x - 52) (- 1074)"
    using False by (simp add: round64_def assms roundHalfEven_of_int)
  also have "\<dots> = x" using assms p by (simp add: field_simps)
  finally show ?thesis .
qed

lemma binaryExponent_of_int:
  assumes "n \<noteq> 0"
  shows "binaryExponent (of_int n) = bitlen \<bar>n\<bar> - 1"
proof -
  have "\<bar>real_of_int n\<bar> = of_int \<bar>n\<bar>" by simp
  moreover have "(1::real) \<le> of_int \<bar>n\<bar>" using assms by (simp add: of_int_1_le_iff [simplified])
  ultimately show ?thesis by (simp add: binaryExponent_def del: of_int_abs)
qed

lemma round64_of_int_less:
  assumes "\<bar>n\<bar> < 2 ^ 53"
  shows "round64 (of_int n) = of_int n"
proof (cases "n = 0")
  case True
  then show ?thesis by (simp add: round64_def)
next
  case False
  define e where "e = max (binaryExponent (of_int n) - 52) (- 1074)"
  have "bitlen \<bar>n\<bar> \<le> 53" using assms by (simp add: bitlen_le_iff_power)
  then have e: "e \<le> 0" by (simp add: e_def binaryExponent_of_int [OF False])
  then have "(2::real) powi e = 1 / 2 ^ nat (- e)"
    by (simp add: power_int_def field_simps)
  then have "real_of_int n / 2 powi e = of_int (n * 2 ^ nat (- e))" by simp
  then show ?thesis unfolding e_def by (rule round64_exact)
qed

lemma round64_of_int:
  assumes "\<bar>n\<bar> \<le> 2 ^ 53"
  shows "round64 (of_int n) = of_int n"
proof (cases "\<bar>n\<bar> < 2 ^ 53")
  case True
  then show ?thesis by (rule round64_of_int_less)
next
  case False
  with assms have "n = 2 ^ 53 \<or> n = - (2 ^ 53)" by linarith
  moreover have "round64 (of_int (2 ^ 53)) = of_int (2 ^ 53)" by code_simp
  moreover have "round64 (of_int (- (2 ^ 53))) = of_int (- (2 ^ 53))" by code_simp
  ultimately show ?thesis by metis
qed


lemma binaryExponent_bounds:
  assumes "x \<noteq> 0"
  shows "2 powi binaryExponent x \<le> \<bar>x\<bar> \<and> \<bar>x\<bar> < 2 powi (binaryExponent x + 1)"
proof (cases "1 \<le> \<bar>x\<bar>")
  case True
  define a where "a = \<lfloor>\<bar>x\<bar>\<rfloor>"
  have a: "0 < a" using True by (simp add: a_def)
  have e: "binaryExponent x = bitlen a - 1" using True by (simp add: binaryExponent_def a_def)
  from bitlen_bounds [OF a] have lo: "2 ^ nat (bitlen a - 1) \<le> a" and hi: "a < 2 ^ nat (bitlen a)"
    by simp_all
  have bl: "1 \<le> bitlen a" using a by (simp add: bitlen_alt_def)
  have "real_of_int (2 ^ nat (bitlen a - 1)) \<le> of_int a" using lo by (simp only: of_int_le_iff)
  also have "\<dots> \<le> \<bar>x\<bar>" by (simp add: a_def)
  finally have 1: "2 powi (bitlen a - 1) \<le> \<bar>x\<bar>" using bl by (simp add: power_int_def)
  from hi have "a + 1 \<le> 2 ^ nat (bitlen a)" by simp
  then have "real_of_int (a + 1) \<le> of_int (2 ^ nat (bitlen a))" by (simp only: of_int_le_iff)
  moreover have "\<bar>x\<bar> < of_int (a + 1)" by (simp add: a_def)
  ultimately have "\<bar>x\<bar> < of_int (2 ^ nat (bitlen a))" by linarith
  then have 2: "\<bar>x\<bar> < 2 powi (bitlen a - 1 + 1)" using bl by (simp add: power_int_def)
  from 1 2 e show ?thesis by simp
next
  case False
  define y where "y = 1 / \<bar>x\<bar>"
  define n where "n = nat \<lceil>y\<rceil>"
  define c where "c = ceillog2 n"
  have y: "1 < y" using False assms by (simp add: y_def)
  then have n: "2 \<le> n" unfolding n_def by linarith
  have e: "binaryExponent x = - int c" using False by (simp add: binaryExponent_def c_def n_def y_def)
  have c1: "1 \<le> c" using n ceillog2_ge_iff [of n 1] by (simp add: c_def)
  have up: "n \<le> 2 ^ c" using n ceillog2_le_iff [of n c] by (simp add: c_def)
  have "\<not> c \<le> c - 1" using c1 by simp
  then have "\<not> n \<le> 2 ^ (c - 1)" using n ceillog2_le_iff [of n "c - 1"] by (simp add: c_def)
  then have lo: "2 ^ (c - 1) + 1 \<le> n" by simp
  have "y \<le> real n" unfolding n_def by linarith
  also have "\<dots> \<le> 2 ^ c" using up by (metis of_nat_le_iff of_nat_numeral of_nat_power)
  finally have "1 / \<bar>x\<bar> \<le> 2 ^ c" by (simp add: y_def)
  then have 1: "2 powi (- int c) \<le> \<bar>x\<bar>"
    using assms c1 by (simp add: power_int_def field_simps)
  have "real n < y + 1" unfolding n_def using y by linarith
  moreover have "real (2 ^ (c - 1) + 1) \<le> real n" using lo by (simp only: of_nat_le_iff)
  ultimately have "2 ^ (c - 1) < y" by simp
  then have "\<bar>x\<bar> < 1 / 2 ^ (c - 1)" using assms by (simp add: y_def field_simps)
  moreover have "(2::real) powi (- int c + 1) = 1 / 2 ^ (c - 1)"
    using c1 by (simp add: power_int_def nat_diff_distrib' field_simps)
  ultimately have 2: "\<bar>x\<bar> < 2 powi (- int c + 1)" by (simp only:)
  from 1 2 e show ?thesis by simp
qed

lemma float64_exact:
  "\<bar>n\<bar> \<le> 2 ^ 53 \<Longrightarrow> float64 n = of_int n"
  by (simp add: float64_def round64_of_int)

lemma float64_small:
  "float64 0 = 0" "float64 1 = 1" "float64 2 = 2" "float64 (0 + 1) = 1"
  "float64 (0 + 1 + 1) = 2"
  by (simp_all add: float64_exact)

lemma noRounding_sum:
  "noRounding s ds \<Longrightarrow> foldl fadd s ds = s + sum_list ds"
  by (induction ds arbitrary: s) (simp_all add: fadd_def add.assoc)

section \<open>The bucket loops\<close>

text \<open>
  What the two loops of \<^verbatim>\<open>resolvedMetricFromNums\<close> compute, for any list of boundaries
  (repeated boundaries included), any numbers and any starting map.
\<close>

lemma mapIndex_increment:
  "mapIndex (increment bk k) b = (if b = k then mapIndex bk k + 1 else mapIndex bk b)"
  by (simp add: mapIndex_def increment_def)

lemma bucketLoop_apply:
  "bucketLoop num bs bk b =
     (if num \<le> b \<and> b \<in> set bs then Some (mapIndex bk b + of_nat (count_list bs b)) else bk b)"
proof (induction bs arbitrary: bk)
  case Nil
  show ?case by simp
next
  case (Cons a bs)
  show ?case
    by (simp add: Cons.IH mapIndex_increment) (auto simp: increment_def mapIndex_def)
qed

lemma mapIndex_bucketLoop:
  "mapIndex (bucketLoop num bs bk) b =
     mapIndex bk b + (if num \<le> b then of_nat (count_list bs b) else 0)"
  by (simp add: mapIndex_def bucketLoop_apply count_list_0_iff)

lemma numbersLoop_sum:
  "fst (numbersLoop bs ds (s, bk)) = foldl fadd s ds"
  by (induction ds arbitrary: s bk) simp_all

lemma numbersLoop_mapIndex:
  "mapIndex (snd (numbersLoop bs ds (s, bk))) b =
     mapIndex bk b + of_nat (count_list bs b * length (filter (\<lambda>d. d \<le> b) ds))"
  by (induction ds arbitrary: s bk) (simp_all add: mapIndex_bucketLoop algebra_simps)

lemma numbersLoop_None:
  "snd (numbersLoop bs ds (s, bk)) b = None \<longleftrightarrow>
     bk b = None \<and> \<not> (b \<in> set bs \<and> (\<exists>d\<in>set ds. d \<le> b))"
  by (induction ds arbitrary: s bk) (auto simp: bucketLoop_apply)

lemma count_list_distinct:
  "distinct bs \<Longrightarrow> b \<in> set bs \<Longrightarrow> count_list bs b = 1"
  by (induction bs) (auto simp: count_list_0_iff)

lemma strictly_increasing_distinct:
  "sorted_wrt (<) (bs :: real list) \<Longrightarrow> distinct bs"
  by (induction bs) auto

lemma variableLabels_resolvedTimeSeconds:
  "variableLabels (resolvedTimeSeconds (exporterAfter p v)) = []"
  by (simp add: exporterAfter_def newExporter_def NewDesc_def)

lemma resolvedMetricFromNumsWith_eq:
  "resolvedMetricFromNumsWith bs (exporterAfter p v) ds =
     Inr (ConstHistogram (resolvedTimeSeconds (exporterAfter p v)) (of_nat (length ds))
            (foldl fadd 0 ds) (snd (numbersLoop bs ds (0, Map.empty))) [])"
  by (simp add: resolvedMetricFromNumsWith_def MustNewConstHistogram_def case_prod_beta
      validateLabelValues_def variableLabels_resolvedTimeSeconds numbersLoop_sum)

lemma unat_count:
  "n < 2 ^ 64 \<Longrightarrow> unat (of_nat n :: 64 word) = n"
  by (simp add: unat_of_nat)

lemma mapIndex_final:
  assumes "distinct bs" "b \<in> set bs"
  shows "mapIndex (snd (numbersLoop bs ds (0, Map.empty))) b =
           of_nat (length (filter (\<lambda>d. d \<le> b) ds))"
proof -
  have "mapIndex Map.empty b = 0" by (simp add: mapIndex_def)
  with assms show ?thesis by (simp add: numbersLoop_mapIndex count_list_distinct)
qed

lemma unat_mapIndex_final:
  assumes "distinct bs" "b \<in> set bs" "length ds < 2 ^ 64"
  shows "unat (mapIndex (snd (numbersLoop bs ds (0, Map.empty))) b) =
           length (filter (\<lambda>d. d \<le> b) ds)"
proof -
  have "length (filter (\<lambda>d. d \<le> b) ds) \<le> length ds" by simp
  with assms(3) have "length (filter (\<lambda>d. d \<le> b) ds) < 2 ^ 64" by linarith
  then show ?thesis using assms(1,2) by (simp add: mapIndex_final unat_count)
qed

lemma entry_final:
  assumes "b \<in> set bs"
  shows "snd (numbersLoop bs ds (0, Map.empty)) b = None \<longleftrightarrow>
           length (filter (\<lambda>d. d \<le> b) ds) = 0"
  using assms by (auto simp: numbersLoop_None filter_empty_conv)

lemma entry_iff:
  "(snd (numbersLoop bs ds (0, Map.empty)) b \<noteq> None) = (b \<in> set bs \<and> (\<exists>d\<in>set ds. d \<le> b))"
  by (simp add: numbersLoop_None)

lemma newExporter_exporterAfter:
  "newExporter p = exporterAfter p 0"
  by (simp add: exporterAfter_def newExporter_def NewGauge_def Set_gauge_def)

lemma scenario_sum:
  "foldl fadd 0 [45, 500, 3700] = 4245"
  by code_simp

lemma tenth_fifth:
  "round64 tenth = tenth" "round64 fifth = fifth"
  "foldl fadd 0 [tenth, fifth] = 5404319552844596 / 2 ^ 54"
  "tenth + fifth = 10808639105689191 / 2 ^ 55"
  by (code_simp, code_simp, code_simp, code_simp)

lemma scenario_buckets:
  "map (snd (numbersLoop resolutionTimeBuckets [45, 500, 3700] (0, Map.empty))) resolutionTimeBuckets
     = [Some 1, Some 2, Some 2, Some 2, Some 3, Some 3, Some 3, Some 3, Some 3]"
  by (simp add: resolutionTimeBuckets_def increment_def mapIndex_def)

section \<open>The histogram of the resolution times\<close>

text \<open>
  Claim C1, as stated: for every strictly increasing list of positive boundaries and
  every sequence of observations the histogram has, for every boundary \<open>b\<close>, a cumulative
  count equal to the number of observations \<open>d \<le> b\<close>, and its sum equals the sum of the
  observations. A boundary below every observation gets no bucket at all: with the
  boundaries of the source and the single observation 100 there is no entry under 60,
  where the claim has the count zero, while 600 has the entry 1. And \<^verbatim>\<open>sum += num\<close> is an
  addition of \<^verbatim>\<open>float64\<close>, which rounds: for the two observations \<open>tenth\<close> and \<open>fifth\<close>,
  both \<^verbatim>\<open>float64\<close>, the sum of the histogram is not their sum.
\<close>

theorem resolvedMetricFromNums_counts_counterexample:
  "bucketEntry (resolvedMetricFromNums (newExporter (Pool ''db'')) [100]) 60 \<noteq> Some 0 \<and>
   bucketEntry (resolvedMetricFromNums (newExporter (Pool ''db'')) [100]) 60 = None \<and>
   bucketEntry (resolvedMetricFromNums (newExporter (Pool ''db'')) [100]) 600 = Some 1 \<and>
   round64 tenth = tenth \<and> round64 fifth = fifth \<and>
   histogramSum (resolvedMetricFromNums (newExporter (Pool ''db'')) [tenth, fifth]) \<noteq>
     Some (tenth + fifth)"
proof -
  have "bucketEntry (resolvedMetricFromNums (newExporter (Pool ''db'')) [100]) 60 = None \<and>
        bucketEntry (resolvedMetricFromNums (newExporter (Pool ''db'')) [100]) 600 = Some 1"
    by (simp add: bucketEntry_def resolvedMetricFromNums_def resolvedMetricFromNumsWith_def
        MustNewConstHistogram_def validateLabelValues_def newExporter_def NewDesc_def
        resolutionTimeBuckets_def increment_def mapIndex_def)
  moreover have "histogramSum (resolvedMetricFromNums (newExporter (Pool ''db'')) [tenth, fifth]) =
      Some (foldl fadd 0 [tenth, fifth])"
    by (simp add: histogramSum_def resolvedMetricFromNums_def newExporter_exporterAfter
        resolvedMetricFromNumsWith_eq)
  moreover have "(5404319552844596 / 2 ^ 54 :: real) \<noteq> 10808639105689191 / 2 ^ 55"
    by simp
  ultimately show ?thesis
    by (simp only: tenth_fifth) simp
qed

text \<open>
  Claim C1, amended. For every strictly increasing list \<open>B\<close> of positive boundaries and
  every list \<open>D\<close> of observations (of a length a \<^verbatim>\<open>uint64\<close> holds), \<^verbatim>\<open>resolvedMetricFromNums\<close>,
  run with \<open>B\<close> as the boundaries, returns a histogram whose total count is the length of
  \<open>D\<close>. Its sum is the \<^verbatim>\<open>float64\<close> sum of \<open>D\<close>, added up from zero in the order of \<open>D\<close> and
  rounded at every addition; it is the sum of \<open>D\<close> when no addition rounds. Its bucket
  map has an entry under exactly the boundaries \<open>b\<close> of \<open>B\<close> with at least one observation
  \<open>d \<le> b\<close>, under no other boundary of \<open>B\<close> and under no other key; and the count at a
  boundary \<open>b\<close> of \<open>B\<close>, read the way Go reads a map (\<open>mapIndex\<close>: a key without an entry
  reads as zero), is the number of observations \<open>d \<le> b\<close>. With the boundaries of the source
  and the observations 45, 500 and 3700 the entries are 1 at 60, 2 at 600, 1800 and 3600,
  and 3 at 14400 and at every larger boundary, the sum is 4245 and the count is 3.
\<close>

theorem resolvedMetricFromNums_counts:
  "(sorted_wrt (<) B \<and> (\<forall>b\<in>set B. 0 < b) \<and> length D < 2 ^ 64 \<longrightarrow>
      (\<exists>buckets.
         resolvedMetricFromNumsWith B (exporterAfter p v) D =
           Inr (ConstHistogram (resolvedTimeSeconds (exporterAfter p v))
                  (of_nat (length D)) (foldl fadd 0 D) buckets []) \<and>
         unat (of_nat (length D) :: 64 word) = length D \<and>
         (noRounding 0 D \<longrightarrow> foldl fadd 0 D = sum_list D) \<and>
         (\<forall>b\<in>set B. unat (mapIndex buckets b) = length (filter (\<lambda>d. d \<le> b) D)) \<and>
         (\<forall>b. (buckets b \<noteq> None) = (b \<in> set B \<and> (\<exists>d\<in>set D. d \<le> b))))) \<and>
   (\<exists>buckets.
      resolvedMetricFromNums (exporterAfter p v) [45, 500, 3700] =
        Inr (ConstHistogram (resolvedTimeSeconds (exporterAfter p v)) 3 4245 buckets []) \<and>
      buckets 60 = Some 1 \<and> buckets 600 = Some 2 \<and> buckets 1800 = Some 2 \<and>
      buckets 3600 = Some 2 \<and> buckets 14400 = Some 3 \<and> buckets 28800 = Some 3 \<and>
      buckets 86400 = Some 3 \<and> buckets 172800 = Some 3 \<and> buckets 604800 = Some 3)"
proof (intro conjI impI)
  assume h: "sorted_wrt (<) B \<and> (\<forall>b\<in>set B. 0 < b) \<and> length D < 2 ^ 64"
  then have d: "distinct B" by (simp add: strictly_increasing_distinct)
  from h have l: "length D < 2 ^ 64" by simp
  have ex: "noRounding 0 D \<longrightarrow> foldl fadd 0 D = sum_list D"
    using noRounding_sum [of 0 D] by simp
  show "\<exists>buckets.
         resolvedMetricFromNumsWith B (exporterAfter p v) D =
           Inr (ConstHistogram (resolvedTimeSeconds (exporterAfter p v))
                  (of_nat (length D)) (foldl fadd 0 D) buckets []) \<and>
         unat (of_nat (length D) :: 64 word) = length D \<and>
         (noRounding 0 D \<longrightarrow> foldl fadd 0 D = sum_list D) \<and>
         (\<forall>b\<in>set B. unat (mapIndex buckets b) = length (filter (\<lambda>d. d \<le> b) D)) \<and>
         (\<forall>b. (buckets b \<noteq> None) = (b \<in> set B \<and> (\<exists>d\<in>set D. d \<le> b)))"
    using resolvedMetricFromNumsWith_eq [of B p v D] unat_count [OF l] ex
      unat_mapIndex_final [OF d _ l] entry_iff [of B D] by blast
next
  show "\<exists>buckets.
      resolvedMetricFromNums (exporterAfter p v) [45, 500, 3700] =
        Inr (ConstHistogram (resolvedTimeSeconds (exporterAfter p v)) 3 4245 buckets []) \<and>
      buckets 60 = Some 1 \<and> buckets 600 = Some 2 \<and> buckets 1800 = Some 2 \<and>
      buckets 3600 = Some 2 \<and> buckets 14400 = Some 3 \<and> buckets 28800 = Some 3 \<and>
      buckets 86400 = Some 3 \<and> buckets 172800 = Some 3 \<and> buckets 604800 = Some 3"
    using scenario_buckets
    by (simp add: resolvedMetricFromNums_def resolvedMetricFromNumsWith_eq scenario_sum
        resolutionTimeBuckets_def del: foldl_Cons)
qed

theorem resolvedMetricFromNums_counts_witness:
  "\<exists>buckets.
     resolvedMetricFromNumsWith [60, 600, 1800] (exporterAfter (Pool ''db'') 0) [100, 500, 3700, -5] =
       Inr (ConstHistogram (resolvedTimeSeconds (exporterAfter (Pool ''db'') 0)) 4 4295 buckets []) \<and>
     unat (mapIndex buckets 60) = 1 \<and> unat (mapIndex buckets 600) = 3 \<and>
     unat (mapIndex buckets 1800) = 3 \<and> buckets 60 \<noteq> None \<and> buckets 30 = None"
proof -
  let ?B = "[60, 600, 1800] :: real list"
  let ?D = "[100, 500, 3700, -5] :: real list"
  have nr: "noRounding 0 ?D" by code_simp
  have hyp: "sorted_wrt (<) ?B \<and> (\<forall>b\<in>set ?B. 0 < b) \<and> length ?D < 2 ^ 64" by simp
  from resolvedMetricFromNums_counts [of ?B ?D "Pool ''db''" 0] hyp
  obtain buckets where
    r: "resolvedMetricFromNumsWith ?B (exporterAfter (Pool ''db'') 0) ?D =
          Inr (ConstHistogram (resolvedTimeSeconds (exporterAfter (Pool ''db'') 0))
                 (of_nat (length ?D)) (foldl fadd 0 ?D) buckets [])"
    and ex: "noRounding 0 ?D \<longrightarrow> foldl fadd 0 ?D = sum_list ?D"
    and cnt: "\<forall>b\<in>set ?B. unat (mapIndex buckets b) = length (filter (\<lambda>d. d \<le> b) ?D)"
    and ent: "\<forall>b. (buckets b \<noteq> None) = (b \<in> set ?B \<and> (\<exists>d\<in>set ?D. d \<le> b))"
    by blast
  from nr ex have "foldl fadd 0 ?D = 4295" by simp
  with r have 1: "resolvedMetricFromNumsWith ?B (exporterAfter (Pool ''db'') 0) ?D =
      Inr (ConstHistogram (resolvedTimeSeconds (exporterAfter (Pool ''db'') 0)) 4 4295 buckets [])"
    by simp
  from cnt have 2: "unat (mapIndex buckets 60) = 1 \<and> unat (mapIndex buckets 600) = 3 \<and>
      unat (mapIndex buckets 1800) = 3" by simp
  from ent [rule_format, of 60] ent [rule_format, of 30]
  have 3: "buckets 60 \<noteq> None \<and> buckets 30 = None" by simp
  from 1 2 3 show ?thesis by blast
qed

text \<open>
  Claim C4, as stated: from the empty sequence of observations the histogram has, for
  every configured boundary, an entry with the count zero, the accumulator starting with
  such an entry under every boundary. The source starts \<^verbatim>\<open>buckets\<close> as the empty map of
  \<^verbatim>\<open>make\<close> and stores an entry only when it increments it: with the boundaries of the
  source and no observation there is no entry under 60.
\<close>

theorem resolvedMetricFromNums_empty_counterexample:
  "bucketEntry (resolvedMetricFromNums (newExporter (Pool ''db'')) []) 60 \<noteq> Some 0"
  by (simp add: bucketEntry_def resolvedMetricFromNums_def resolvedMetricFromNumsWith_def
      MustNewConstHistogram_def validateLabelValues_def newExporter_def NewDesc_def)

text \<open>
  Claim C4, amended. For every list of boundaries, \<^verbatim>\<open>resolvedMetricFromNums\<close> on the empty
  sequence of observations returns a histogram, not an error: its bucket map is empty (no
  boundary has an entry, and a key read the way Go reads a map gives zero), its sum is
  zero and its total count is zero.
\<close>

theorem resolvedMetricFromNums_empty:
  "\<exists>buckets.
     resolvedMetricFromNumsWith B (exporterAfter p v) [] =
       Inr (ConstHistogram (resolvedTimeSeconds (exporterAfter p v)) 0 0 buckets []) \<and>
     buckets = Map.empty \<and> buckets b = None \<and> mapIndex buckets b = 0"
  by (simp add: resolvedMetricFromNumsWith_eq mapIndex_def)

lemma filter_le_mono:
  fixes b1 b2 :: real
  assumes "b1 \<le> b2"
  shows "length (filter (\<lambda>d. d \<le> b1) ds) \<le> length (filter (\<lambda>d. d \<le> b2) ds)"
  using assms by (induction ds) auto

text \<open>
  Claim C8. For every strictly increasing list of boundaries and every sequence of
  observations (of a length a \<^verbatim>\<open>uint64\<close> holds), the cumulative counts of the histogram
  do not decrease with the boundary: for boundaries \<open>b1 < b2\<close> the count at \<open>b1\<close> is at most
  the count at \<open>b2\<close>, and the count at every boundary is at most the total count, which
  is the count of the bucket \<^verbatim>\<open>+Inf\<close>. Counts are read as Go reads the map; and on the
  entries themselves: when \<open>b1\<close> has an entry in the bucket map, so has \<open>b2\<close>.
\<close>

theorem resolvedMetricFromNums_monotone:
  "sorted_wrt (<) B \<and> length D < 2 ^ 64 \<longrightarrow>
     (\<exists>buckets.
        resolvedMetricFromNumsWith B (exporterAfter p v) D =
          Inr (ConstHistogram (resolvedTimeSeconds (exporterAfter p v))
                 (of_nat (length D)) (foldl fadd 0 D) buckets []) \<and>
        (\<forall>b1\<in>set B. \<forall>b2\<in>set B.
           b1 < b2 \<longrightarrow>
             unat (mapIndex buckets b1) \<le> unat (mapIndex buckets b2) \<and>
             (buckets b1 \<noteq> None \<longrightarrow> buckets b2 \<noteq> None)) \<and>
        (\<forall>b\<in>set B. unat (mapIndex buckets b) \<le> unat (of_nat (length D) :: 64 word)))"
proof
  assume h: "sorted_wrt (<) B \<and> length D < 2 ^ 64"
  then have d: "distinct B" by (simp add: strictly_increasing_distinct)
  from h have l: "length D < 2 ^ 64" by simp
  let ?bk = "snd (numbersLoop B D (0, Map.empty))"
  have mono: "unat (mapIndex ?bk b1) \<le> unat (mapIndex ?bk b2)"
    if "b1 \<in> set B" "b2 \<in> set B" "b1 < b2" for b1 b2
    using that filter_le_mono [of b1 b2 D]
    by (simp add: unat_mapIndex_final [OF d _ l])
  have pres: "?bk b2 \<noteq> None"
    if "b1 \<in> set B" "b2 \<in> set B" "b1 < b2" "?bk b1 \<noteq> None" for b1 b2
  proof -
    from that(1,4) obtain d where "d \<in> set D" "d \<le> b1"
      using numbersLoop_None [of B D 0 Map.empty b1] by auto
    with that(3) have "d \<in> set D \<and> d \<le> b2" by simp
    with that(2) show ?thesis
      using numbersLoop_None [of B D 0 Map.empty b2] by auto
  qed
  have top: "unat (mapIndex ?bk b) \<le> unat (of_nat (length D) :: 64 word)"
    if "b \<in> set B" for b
    using that by (simp add: unat_mapIndex_final [OF d _ l] unat_count [OF l])
  show "\<exists>buckets.
        resolvedMetricFromNumsWith B (exporterAfter p v) D =
          Inr (ConstHistogram (resolvedTimeSeconds (exporterAfter p v))
                 (of_nat (length D)) (foldl fadd 0 D) buckets []) \<and>
        (\<forall>b1\<in>set B. \<forall>b2\<in>set B.
           b1 < b2 \<longrightarrow>
             unat (mapIndex buckets b1) \<le> unat (mapIndex buckets b2) \<and>
             (buckets b1 \<noteq> None \<longrightarrow> buckets b2 \<noteq> None)) \<and>
        (\<forall>b\<in>set B. unat (mapIndex buckets b) \<le> unat (of_nat (length D) :: 64 word))"
    using resolvedMetricFromNumsWith_eq [of B p v D] mono pres top by blast
qed

theorem resolvedMetricFromNums_monotone_witness:
  "\<exists>buckets.
     resolvedMetricFromNumsWith [60, 600] (exporterAfter (Pool ''db'') 0) [45, 500, 3700] =
       Inr (ConstHistogram (resolvedTimeSeconds (exporterAfter (Pool ''db'') 0)) 3 4245 buckets []) \<and>
     unat (mapIndex buckets 60) \<le> unat (mapIndex buckets 600) \<and>
     unat (mapIndex buckets 60) \<le> 3 \<and> unat (mapIndex buckets 600) \<le> 3"
  using resolvedMetricFromNums_monotone [of "[60, 600]" "[45, 500, 3700]" "Pool ''db''" 0]
    scenario_sum
  by auto

lemma numbersLoop_entry_negative:
  assumes "b \<in> set bs" "0 < b" "d < 0"
  shows "snd (numbersLoop bs (ds1 @ d # ds2) (0, Map.empty)) b \<noteq> None"
  using assms by (simp add: numbersLoop_None)

text \<open>
  Claim C10. \<^verbatim>\<open>resolvedMetricFromNums\<close> returns a histogram for every sequence of
  observations; it has no check of the sign of an observation. A negative observation
  \<open>d\<close>, wherever it stands in the sequence, is added to the running sum by the \<^verbatim>\<open>float64\<close>
  addition of the loop (the sum of the observations before it becomes that sum plus \<open>d\<close>,
  rounded, and the loop goes on from there), adds one to the total count and one to the
  count of every boundary of a strictly increasing list of positive boundaries, each of
  which then has an entry in the bucket map. The counts are the \<^verbatim>\<open>uint64\<close> values of the
  source.
\<close>

theorem resolvedMetricFromNums_negative:
  "(\<exists>h. resolvedMetricFromNumsWith B (exporterAfter p v) D = Inr h) \<and>
   (sorted_wrt (<) B \<and> (\<forall>b\<in>set B. 0 < b) \<and> d < 0 \<longrightarrow>
      (\<exists>c buckets buckets'.
         resolvedMetricFromNumsWith B (exporterAfter p v) (D1 @ D2) =
           Inr (ConstHistogram (resolvedTimeSeconds (exporterAfter p v)) c
                  (foldl fadd (foldl fadd 0 D1) D2) buckets []) \<and>
         resolvedMetricFromNumsWith B (exporterAfter p v) (D1 @ d # D2) =
           Inr (ConstHistogram (resolvedTimeSeconds (exporterAfter p v)) (c + 1)
                  (foldl fadd (fadd (foldl fadd 0 D1) d) D2) buckets' []) \<and>
         (\<forall>b\<in>set B. buckets' b = Some (mapIndex buckets b + 1))))"
proof (intro conjI impI)
  show "\<exists>h. resolvedMetricFromNumsWith B (exporterAfter p v) D = Inr h"
    by (simp add: resolvedMetricFromNumsWith_eq)
next
  assume h: "sorted_wrt (<) B \<and> (\<forall>b\<in>set B. 0 < b) \<and> d < 0"
  then have dist: "distinct B" by (simp add: strictly_increasing_distinct)
  let ?bk = "snd (numbersLoop B (D1 @ D2) (0, Map.empty))"
  let ?bk' = "snd (numbersLoop B (D1 @ d # D2) (0, Map.empty))"
  have entry: "?bk' b = Some (mapIndex ?bk b + 1)" if b: "b \<in> set B" for b
  proof -
    from h b have le: "d \<le> b" by fastforce
    from h b have "?bk' b \<noteq> None" by (simp add: numbersLoop_entry_negative)
    then obtain c where c: "?bk' b = Some c" by blast
    then have "mapIndex ?bk' b = c" by (simp add: mapIndex_def)
    moreover have "mapIndex ?bk' b = mapIndex ?bk b + 1"
      using le by (simp add: mapIndex_final [OF dist b])
    ultimately show ?thesis using c by simp
  qed
  show "\<exists>c buckets buckets'.
         resolvedMetricFromNumsWith B (exporterAfter p v) (D1 @ D2) =
           Inr (ConstHistogram (resolvedTimeSeconds (exporterAfter p v)) c
                  (foldl fadd (foldl fadd 0 D1) D2) buckets []) \<and>
         resolvedMetricFromNumsWith B (exporterAfter p v) (D1 @ d # D2) =
           Inr (ConstHistogram (resolvedTimeSeconds (exporterAfter p v)) (c + 1)
                  (foldl fadd (fadd (foldl fadd 0 D1) d) D2) buckets' []) \<and>
         (\<forall>b\<in>set B. buckets' b = Some (mapIndex buckets b + 1))"
    using entry by (simp add: resolvedMetricFromNumsWith_eq)
qed

theorem resolvedMetricFromNums_negative_witness:
  "\<exists>buckets buckets'.
     resolvedMetricFromNumsWith [60, 600] (exporterAfter (Pool ''db'') 0) [500, 3700] =
       Inr (ConstHistogram (resolvedTimeSeconds (exporterAfter (Pool ''db'') 0)) 2 4200 buckets []) \<and>
     resolvedMetricFromNumsWith [60, 600] (exporterAfter (Pool ''db'') 0) [500, -30, 3700] =
       Inr (ConstHistogram (resolvedTimeSeconds (exporterAfter (Pool ''db'') 0)) 3 4170 buckets' []) \<and>
     buckets' 60 = Some (mapIndex buckets 60 + 1) \<and> buckets' 600 = Some (mapIndex buckets 600 + 1)"
proof -
  have a: "fadd (fadd 0 500) 3700 = 4200" by code_simp
  have b: "fadd (fadd (fadd 0 500) (- 30)) 3700 = 4170" by code_simp
  from resolvedMetricFromNums_negative [of "[60, 600]" "Pool ''db''" 0 "[]" "-30" "[500]" "[3700]"]
  show ?thesis by (auto simp: resolvedMetricFromNumsWith_eq a b)
qed

section \<open>The queries and the scrape\<close>

text \<open>
  Facts about the exporter that \<open>newExporter\<close> makes: its constant metrics are never
  refused, so nothing panics; \<open>getResolvedStats\<close> keeps all rows or none; and \<open>scrape\<close>
  sends what the two families give, then the gauge.
\<close>

lemma resolvedMetricFromNums_eq:
  "resolvedMetricFromNums (exporterAfter p v) ds =
     Inr (ConstHistogram (resolvedTimeSeconds (exporterAfter p v)) (of_nat (length ds))
            (foldl fadd 0 ds) (snd (numbersLoop resolutionTimeBuckets ds (0, Map.empty))) [])"
  by (simp add: resolvedMetricFromNums_def resolvedMetricFromNumsWith_eq)

lemma variableLabels_numReports:
  "variableLabels (numReports (exporterAfter p v)) = [''resolved'']"
  by (simp add: exporterAfter_def newExporter_def NewDesc_def)

lemma sendNumReports_eq:
  "sendNumReports (exporterAfter p v) ch r u =
     Inr (ch @ [ConstMetric (numReports (exporterAfter p v)) GaugeValue (float64 r) [''true''],
                ConstMetric (numReports (exporterAfter p v)) GaugeValue (float64 u) [''false'']])"
  by (simp add: sendNumReports_def MustNewConstMetric_def validateLabelValues_def
      variableLabels_numReports)

lemma exporterAfter_Set:
  "(exporterAfter p v)\<lparr>errors := Set_gauge (errors (exporterAfter p v)) w\<rparr> = exporterAfter p w"
  by (simp add: exporterAfter_def Set_gauge_def)

lemma collectLoop_ok:
  "\<forall>r\<in>set rs. \<not> isl r \<Longrightarrow> collectLoop rs scanRow acc = Inr (acc @ map projr rs)"
proof (induction rs arbitrary: acc)
  case Nil
  show ?case by simp
next
  case (Cons r rs)
  then obtain n where "r = Inr n" by (cases r) auto
  with Cons show ?case by (simp add: scanRow_def)
qed

lemma collectLoop_bad:
  "\<exists>r\<in>set rs. isl r \<Longrightarrow> \<exists>e. collectLoop rs scanRow acc = Inl (Errorf ''scanning row'' e)"
proof (induction rs arbitrary: acc)
  case Nil
  then show ?case by simp
next
  case (Cons r rs)
  show ?case
  proof (cases r)
    case (Inl e)
    then show ?thesis by (simp add: scanRow_def)
  next
    case (Inr n)
    with Cons.prems have "\<exists>r\<in>set rs. isl r" by simp
    from Cons.IH [OF this] Inr show ?thesis by (simp add: scanRow_def)
  qed
qed

lemma collectLoop_Inr:
  "collectLoop rs scanRow acc = Inr ns \<Longrightarrow> (\<forall>r\<in>set rs. \<not> isl r) \<and> ns = acc @ map projr rs"
  using collectLoop_ok [of rs acc] collectLoop_bad [of rs acc] by fastforce

lemma getResolvedStats_no_panic:
  "getResolvedStats d (exporterAfter p v) \<noteq> Inl e"
  by (simp add: getResolvedStats_def resolvedMetricFromNums_eq split: sum.splits)

lemma scrape_eq:
  "scrape d (exporterAfter p v) =
     Inr ((case getNumReports d (exporterAfter p v) of
             Inl err \<Rightarrow> []
           | Inr (r, u) \<Rightarrow>
               [ConstMetric (numReports (exporterAfter p v)) GaugeValue (float64 r) [''true''],
                ConstMetric (numReports (exporterAfter p v)) GaugeValue (float64 u) [''false'']]) @
          (case getResolvedStats d (exporterAfter p v) of
             Inr (Inr h) \<Rightarrow> [h]
           | _ \<Rightarrow> []) @
          [ErrorsGauge],
          exporterAfter p (real (failedQueries d (exporterAfter p v))))"
proof (cases "getResolvedStats d (exporterAfter p v)")
  case (Inl e)
  then show ?thesis by (simp add: getResolvedStats_no_panic)
next
  case (Inr x)
  then show ?thesis
    by (cases x; cases "getNumReports d (exporterAfter p v)")
       (auto simp: scrape_def failedQueries_def sendNumReports_eq exporterAfter_Set float64_small)
qed


lemma getResolvedStats_Inr:
  assumes "getResolvedStats d (exporterAfter p v) = Inr (Inr h)"
  shows "\<exists>rs. resolutionRows d = Inr rs \<and> (\<forall>r\<in>set (scanned rs). \<not> isl r) \<and>
           rowsErr rs = None \<and>
           resolvedMetricFromNums (exporterAfter p v) (map projr (scanned rs)) = Inr h"
proof (cases "resolutionRows d")
  case (Inl e)
  with assms show ?thesis by (simp add: getResolvedStats_def)
next
  case (Inr rs)
  show ?thesis
  proof (cases "collectLoop (scanned rs) scanRow []")
    case (Inl e)
    with assms Inr show ?thesis by (simp add: getResolvedStats_def CollectRows_def)
  next
    case ok: (Inr ns)
    from collectLoop_Inr [OF ok] have all: "\<forall>r\<in>set (scanned rs). \<not> isl r"
      and ns: "ns = map projr (scanned rs)" by simp_all
    from assms Inr ok ns have "rowsErr rs = None"
      "resolvedMetricFromNums (exporterAfter p v) (map projr (scanned rs)) = Inr h"
      by (auto simp: getResolvedStats_def CollectRows_def split: option.splits sum.splits)
    with Inr all show ?thesis by simp
  qed
qed

lemma getResolvedStats_histogram:
  assumes "getResolvedStats d (exporterAfter p v) = Inr (Inr h)"
  shows "\<exists>c s bks. h = ConstHistogram (resolvedTimeSeconds (exporterAfter p v)) c s bks []"
  using getResolvedStats_Inr [OF assms] by (auto simp: resolvedMetricFromNums_eq)

lemma getResolvedStats_query_failed:
  "resolutionRows d = Inl e \<Longrightarrow>
     getResolvedStats d m = Inr (Inl (Errorf ''querying database'' e))"
  by (simp add: getResolvedStats_def)

lemma getResolvedStats_row_failed:
  assumes "resolutionRows d = Inr rs" "\<exists>r\<in>set (scanned rs). isl r"
  shows "\<exists>e. getResolvedStats d m =
           Inr (Inl (Errorf ''scanning rows'' (Errorf ''scanning row'' e)))"
proof -
  from collectLoop_bad [OF assms(2), of "[]"]
  obtain e where "collectLoop (scanned rs) scanRow [] = Inl (Errorf ''scanning row'' e)" by blast
  with assms(1) show ?thesis by (simp add: getResolvedStats_def CollectRows_def)
qed

lemma getResolvedStats_stream_failed:
  assumes "resolutionRows d = Inr rs" "\<forall>r\<in>set (scanned rs). \<not> isl r" "rowsErr rs = Some e"
  shows "getResolvedStats d m = Inr (Inl (Errorf ''scanning rows'' e))"
  using assms collectLoop_ok [of "scanned rs" "[]"]
  by (simp add: getResolvedStats_def CollectRows_def)

lemma getResolvedStats_ok:
  assumes "resolutionRows d = Inr rs" "\<forall>r\<in>set (scanned rs). \<not> isl r" "rowsErr rs = None"
  shows "\<exists>h. getResolvedStats d (exporterAfter p v) = Inr (Inr h) \<and>
           resolvedMetricFromNums (exporterAfter p v) (map projr (scanned rs)) = Inr h"
  using assms collectLoop_ok [of "scanned rs" "[]"]
  by (simp add: getResolvedStats_def CollectRows_def resolvedMetricFromNums_eq)

lemma descs_exporterAfter:
  "numReports (exporterAfter p v) = numReports (newExporter p)"
  "resolvedTimeSeconds (exporterAfter p v) = resolvedTimeSeconds (newExporter p)"
  "db (exporterAfter p v) = db (newExporter p)"
  "opts (errors (exporterAfter p v)) = opts (errors (newExporter p))"
  "val (errors (exporterAfter p v)) = v"
  by (simp_all add: exporterAfter_def Set_gauge_def)

lemma getResolvedStats_same:
  "getResolvedStats d (exporterAfter p v) = getResolvedStats d (exporterAfter p w)"
  by (simp add: getResolvedStats_def resolvedMetricFromNums_eq descs_exporterAfter
      cong: sum.case_cong)

lemma failedQueries_same:
  "failedQueries d (exporterAfter p v) = failedQueries d (exporterAfter p w)"
  by (simp add: failedQueries_def getNumReports_def getResolvedStats_same [of d p v w])

lemma gaugeName_exporterAfter:
  "gaugeName (errors (exporterAfter p v)) = ''mastodon_exporter_errors''"
  by (simp add: exporterAfter_def newExporter_def NewGauge_def Set_gauge_def gaugeName_def
      BuildFQName_def namespace_def subsystem_def)

lemma fqName_numReports:
  "fqName (numReports (exporterAfter p v)) = ''mastodon_exporter_num_reports''"
  by (simp add: exporterAfter_def newExporter_def NewDesc_def BuildFQName_def namespace_def
      subsystem_def)

lemma fqName_resolvedTimeSeconds:
  "fqName (resolvedTimeSeconds (exporterAfter p v)) = ''mastodon_exporter_resolved_time_seconds''"
  by (simp add: exporterAfter_def newExporter_def NewDesc_def BuildFQName_def namespace_def
      subsystem_def)

text \<open>
  Claim C7. \<^verbatim>\<open>getResolvedStats\<close> returns either an error or the histogram of the complete
  sequence of durations, one per row, in the order of the rows; it does not panic. When
  the query itself fails the error is the one wrapped as \<^verbatim>\<open>querying database\<close> (the query
  error); when some row cannot be scanned it is the one wrapped as
  \<^verbatim>\<open>scanning rows: scanning row\<close> (the row scan error), whatever the other rows hold; when
  every row is scanned and the rows end with an error (\<^verbatim>\<open>rows.Err()\<close>, a stream cut
  short), that error is returned, wrapped as \<^verbatim>\<open>scanning rows\<close>, and no histogram of the
  rows read so far. A histogram is returned exactly when every row was scanned and the
  rows ended without error, and it is the one built from all the rows, never from the
  rows that could be scanned alone.
\<close>

theorem getResolvedStats_all_or_error:
  "(\<exists>x. getResolvedStats d (exporterAfter p v) = Inr x) \<and>
   (resolutionRows d = Inl e \<longrightarrow>
      getResolvedStats d (exporterAfter p v) = Inr (Inl (Errorf ''querying database'' e)) \<and>
      isQueryError (Errorf ''querying database'' e)) \<and>
   (resolutionRows d = Inr rs \<and> (\<exists>r\<in>set (scanned rs). isl r) \<longrightarrow>
      (\<exists>e'. getResolvedStats d (exporterAfter p v) = Inr (Inl e') \<and> isRowScanError e')) \<and>
   (resolutionRows d = Inr rs \<and> (\<forall>r\<in>set (scanned rs). \<not> isl r) \<and> rowsErr rs = Some e \<longrightarrow>
      getResolvedStats d (exporterAfter p v) = Inr (Inl (Errorf ''scanning rows'' e))) \<and>
   (resolutionRows d = Inr rs \<and> (\<forall>r\<in>set (scanned rs). \<not> isl r) \<and> rowsErr rs = None \<longrightarrow>
      (\<exists>h'. getResolvedStats d (exporterAfter p v) = Inr (Inr h') \<and>
         resolvedMetricFromNums (exporterAfter p v) (map projr (scanned rs)) = Inr h')) \<and>
   (getResolvedStats d (exporterAfter p v) = Inr (Inr h) \<longrightarrow>
      (\<exists>rs'. resolutionRows d = Inr rs' \<and> (\<forall>r\<in>set (scanned rs'). \<not> isl r) \<and>
         rowsErr rs' = None \<and>
         resolvedMetricFromNums (exporterAfter p v) (map projr (scanned rs')) = Inr h))"
proof (intro conjI impI)
  show "\<exists>x. getResolvedStats d (exporterAfter p v) = Inr x"
    using getResolvedStats_no_panic [of d p v] by (cases "getResolvedStats d (exporterAfter p v)") auto
next
  assume "resolutionRows d = Inl e"
  then show "getResolvedStats d (exporterAfter p v) = Inr (Inl (Errorf ''querying database'' e))"
    by (rule getResolvedStats_query_failed)
next
  show "isQueryError (Errorf ''querying database'' e)" by simp
next
  assume "resolutionRows d = Inr rs \<and> (\<exists>r\<in>set (scanned rs). isl r)"
  then show "\<exists>e'. getResolvedStats d (exporterAfter p v) = Inr (Inl e') \<and> isRowScanError e'"
    using getResolvedStats_row_failed [of d rs "exporterAfter p v"] by auto
next
  assume "resolutionRows d = Inr rs \<and> (\<forall>r\<in>set (scanned rs). \<not> isl r) \<and> rowsErr rs = Some e"
  then show "getResolvedStats d (exporterAfter p v) = Inr (Inl (Errorf ''scanning rows'' e))"
    using getResolvedStats_stream_failed [of d rs e "exporterAfter p v"] by blast
next
  assume "resolutionRows d = Inr rs \<and> (\<forall>r\<in>set (scanned rs). \<not> isl r) \<and> rowsErr rs = None"
  then show "\<exists>h'. getResolvedStats d (exporterAfter p v) = Inr (Inr h') \<and>
         resolvedMetricFromNums (exporterAfter p v) (map projr (scanned rs)) = Inr h'"
    using getResolvedStats_ok [of d rs p v] by blast
next
  assume "getResolvedStats d (exporterAfter p v) = Inr (Inr h)"
  from getResolvedStats_Inr [OF this]
  show "\<exists>rs'. resolutionRows d = Inr rs' \<and> (\<forall>r\<in>set (scanned rs'). \<not> isl r) \<and>
         rowsErr rs' = None \<and>
         resolvedMetricFromNums (exporterAfter p v) (map projr (scanned rs')) = Inr h"
    by blast
qed

theorem getResolvedStats_all_or_error_witness:
  "getResolvedStats allDown (exporterAfter (Pool ''db'') 0) =
     Inr (Inl (Errorf ''querying database'' (Err ''connection refused''))) \<and>
   (\<exists>e'. getResolvedStats badRow (exporterAfter (Pool ''db'') 0) = Inr (Inl e') \<and> isRowScanError e') \<and>
   getResolvedStats streamCut (exporterAfter (Pool ''db'') 0) =
     Inr (Inl (Errorf ''scanning rows'' (Err ''unexpected EOF''))) \<and>
   (\<exists>h. getResolvedStats allUp (exporterAfter (Pool ''db'') 0) = Inr (Inr h) \<and>
      resolvedMetricFromNums (exporterAfter (Pool ''db'') 0) [45, 500, 3700] = Inr h \<and>
      (\<exists>rs'. resolutionRows allUp = Inr rs' \<and> rowsErr rs' = None))"
proof -
  let ?m = "exporterAfter (Pool ''db'') 0"
  let ?bad = "\<lparr>scanned = [Inr 45, Inl (Err ''cannot scan NULL''), Inr 3700], rowsErr = None\<rparr>"
  let ?cut = "\<lparr>scanned = [Inr 45, Inr 500], rowsErr = Some (Err ''unexpected EOF'')\<rparr>"
  let ?up = "\<lparr>scanned = [Inr 45, Inr 500, Inr 3700], rowsErr = None\<rparr>"
  have a: "resolutionRows allDown = Inl (Err ''connection refused'')"
    by (simp add: allDown_def)
  have b: "resolutionRows badRow = Inr ?bad \<and> (\<exists>r\<in>set (scanned ?bad). isl r)"
    by (simp add: badRow_def)
  have c: "resolutionRows streamCut = Inr ?cut \<and> (\<forall>r\<in>set (scanned ?cut). \<not> isl r) \<and>
      rowsErr ?cut = Some (Err ''unexpected EOF'')"
    by (simp add: streamCut_def)
  have u: "resolutionRows allUp = Inr ?up \<and> (\<forall>r\<in>set (scanned ?up). \<not> isl r) \<and>
      rowsErr ?up = None"
    by (simp add: allUp_def)
  from a getResolvedStats_all_or_error [of allDown "Pool ''db''" 0 "Err ''connection refused''"]
  have 1: "getResolvedStats allDown ?m =
      Inr (Inl (Errorf ''querying database'' (Err ''connection refused'')))" by blast
  from b getResolvedStats_all_or_error [of badRow "Pool ''db''" 0 _ ?bad]
  have 2: "\<exists>e'. getResolvedStats badRow ?m = Inr (Inl e') \<and> isRowScanError e'" by blast
  from c getResolvedStats_all_or_error [of streamCut "Pool ''db''" 0 "Err ''unexpected EOF''" ?cut]
  have 3: "getResolvedStats streamCut ?m =
      Inr (Inl (Errorf ''scanning rows'' (Err ''unexpected EOF'')))" by blast
  from u getResolvedStats_all_or_error [of allUp "Pool ''db''" 0 _ ?up]
  obtain h where h: "getResolvedStats allUp ?m = Inr (Inr h)"
    and h': "resolvedMetricFromNums ?m (map projr (scanned ?up)) = Inr h" by blast
  from h getResolvedStats_all_or_error [of allUp "Pool ''db''" 0 _ _ h]
  have "\<exists>rs'. resolutionRows allUp = Inr rs' \<and> rowsErr rs' = None" by blast
  moreover from h' have "resolvedMetricFromNums ?m [45, 500, 3700] = Inr h" by simp
  ultimately show ?thesis using 1 2 3 h by blast
qed

text \<open>
  Claim C6, as stated: for all non-negative counts \<open>r\<close> and \<open>u\<close> the two samples have the
  values \<open>r\<close> and \<open>u\<close>. The values are \<^verbatim>\<open>float64(resolved)\<close> and \<^verbatim>\<open>float64(unresolved)\<close>, and
  the conversion rounds a count beyond \<open>2 ^ 53\<close>: for \<open>r = 2 ^ 53 + 1\<close> the sample labelled
  \<^verbatim>\<open>true\<close> has the value \<open>2 ^ 53\<close>.
\<close>

theorem sendNumReports_samples_counterexample:
  "sentValues (newExporter (Pool ''db''))
     (sendNumReports (newExporter (Pool ''db'')) [] (2 ^ 53 + 1) 0) =
     [Some (2 ^ 53), Some 0] \<and>
   sentValues (newExporter (Pool ''db''))
     (sendNumReports (newExporter (Pool ''db'')) [] (2 ^ 53 + 1) 0) \<noteq>
     [Some (of_int (2 ^ 53 + 1)), Some (of_int 0)]"
proof -
  have "float64 (2 ^ 53 + 1) = 2 ^ 53" by code_simp
  then show ?thesis
    by (simp add: sentValues_def newExporter_exporterAfter sendNumReports_eq float64_small)
qed

text \<open>
  Claim C6, amended. The report counts \<open>r\<close> and \<open>u\<close> (any \<^verbatim>\<open>int\<close>, the non-negative ones
  among them) give exactly two gauge samples of \<^verbatim>\<open>num_reports\<close>, whose one variable label
  is \<^verbatim>\<open>resolved\<close>: one with the label value \<^verbatim>\<open>true\<close> and the value \<^verbatim>\<open>float64(r)\<close>, one with
  the label value \<^verbatim>\<open>false\<close> and the value \<^verbatim>\<open>float64(u)\<close>, the \<^verbatim>\<open>float64\<close> nearest to the
  count, which is the count itself when the count is at most \<open>2 ^ 53\<close>. As a set the two
  samples are the pair, in whichever order it is written. Building them never fails (no
  panic of \<^verbatim>\<open>MustNewConstMetric\<close>), and a scrape whose report query answers \<open>(r, u)\<close> sends
  these two samples and no other sample of \<^verbatim>\<open>num_reports\<close>.
\<close>

theorem sendNumReports_samples:
  "sendNumReports (exporterAfter p v) [] r u =
     Inr [ConstMetric (numReports (exporterAfter p v)) GaugeValue (float64 r) [''true''],
          ConstMetric (numReports (exporterAfter p v)) GaugeValue (float64 u) [''false'']] \<and>
   (\<bar>r\<bar> \<le> 2 ^ 53 \<longrightarrow> float64 r = of_int r) \<and>
   (\<bar>u\<bar> \<le> 2 ^ 53 \<longrightarrow> float64 u = of_int u) \<and>
   (\<exists>ms. sendNumReports (exporterAfter p v) [] r u = Inr ms \<and> length ms = 2 \<and>
      set ms =
        {ConstMetric (numReports (exporterAfter p v)) GaugeValue (float64 u) [''false''],
         ConstMetric (numReports (exporterAfter p v)) GaugeValue (float64 r) [''true'']}) \<and>
   variableLabels (numReports (exporterAfter p v)) = [''resolved''] \<and>
   fqName (numReports (exporterAfter p v)) = ''mastodon_exporter_num_reports'' \<and>
   (getNumReports d (exporterAfter p v) = Inr (r, u) \<longrightarrow>
      (\<exists>rest m'.
         scrape d (exporterAfter p v) =
           Inr (ConstMetric (numReports (exporterAfter p v)) GaugeValue (float64 r) [''true''] #
                ConstMetric (numReports (exporterAfter p v)) GaugeValue (float64 u) [''false''] #
                rest, m') \<and>
         (\<forall>x\<in>set rest. metricName m' x \<noteq> ''mastodon_exporter_num_reports'')))"
proof (intro conjI impI)
  show "sendNumReports (exporterAfter p v) [] r u =
     Inr [ConstMetric (numReports (exporterAfter p v)) GaugeValue (float64 r) [''true''],
          ConstMetric (numReports (exporterAfter p v)) GaugeValue (float64 u) [''false'']]"
    by (simp add: sendNumReports_eq)
  show "\<exists>ms. sendNumReports (exporterAfter p v) [] r u = Inr ms \<and> length ms = 2 \<and>
      set ms =
        {ConstMetric (numReports (exporterAfter p v)) GaugeValue (float64 u) [''false''],
         ConstMetric (numReports (exporterAfter p v)) GaugeValue (float64 r) [''true'']}"
    by (auto simp: sendNumReports_eq)
  show "variableLabels (numReports (exporterAfter p v)) = [''resolved'']"
    by (rule variableLabels_numReports)
  show "fqName (numReports (exporterAfter p v)) = ''mastodon_exporter_num_reports''"
    by (rule fqName_numReports)
next
  assume "\<bar>r\<bar> \<le> 2 ^ 53"
  then show "float64 r = of_int r" by (rule float64_exact)
next
  assume "\<bar>u\<bar> \<le> 2 ^ 53"
  then show "float64 u = of_int u" by (rule float64_exact)
next
  assume ok: "getNumReports d (exporterAfter p v) = Inr (r, u)"
  let ?m = "exporterAfter p v"
  let ?b = "case getResolvedStats d ?m of Inr (Inr h) \<Rightarrow> [h] | _ \<Rightarrow> []"
  let ?m' = "exporterAfter p (real (failedQueries d ?m))"
  have b: "metricName ?m' x \<noteq> ''mastodon_exporter_num_reports''" if x: "x \<in> set ?b" for x
  proof (cases "getResolvedStats d ?m")
    case (Inl e)
    with x show ?thesis by simp
  next
    case (Inr y)
    show ?thesis
    proof (cases y)
      case (Inl e)
      with Inr x show ?thesis by simp
    next
      case h: (Inr h)
      with Inr have "getResolvedStats d ?m = Inr (Inr h)" by simp
      from getResolvedStats_histogram [OF this] Inr h x show ?thesis
        by (auto simp: fqName_resolvedTimeSeconds)
    qed
  qed
  have g: "metricName ?m' ErrorsGauge \<noteq> ''mastodon_exporter_num_reports''"
    by (simp add: gaugeName_exporterAfter)
  from b g have "\<forall>x\<in>set (?b @ [ErrorsGauge]). metricName ?m' x \<noteq> ''mastodon_exporter_num_reports''"
    by auto
  moreover from ok have "scrape d ?m =
      Inr (ConstMetric (numReports ?m) GaugeValue (float64 r) [''true''] #
           ConstMetric (numReports ?m) GaugeValue (float64 u) [''false''] #
           (?b @ [ErrorsGauge]), ?m')"
    by (simp add: scrape_eq)
  ultimately show "\<exists>rest m'.
         scrape d (exporterAfter p v) =
           Inr (ConstMetric (numReports (exporterAfter p v)) GaugeValue (float64 r) [''true''] #
                ConstMetric (numReports (exporterAfter p v)) GaugeValue (float64 u) [''false''] #
                rest, m') \<and>
         (\<forall>x\<in>set rest. metricName m' x \<noteq> ''mastodon_exporter_num_reports'')"
    by blast
qed

theorem sendNumReports_samples_witness:
  "\<exists>rest m'.
     scrape badRow (exporterAfter (Pool ''db'') 0) =
       Inr (ConstMetric (numReports (exporterAfter (Pool ''db'') 0)) GaugeValue 3 [''true''] #
            ConstMetric (numReports (exporterAfter (Pool ''db'') 0)) GaugeValue 0 [''false''] #
            rest, m') \<and>
     ConstMetric (numReports (exporterAfter (Pool ''db'') 0)) GaugeValue 3 [''true''] \<notin> set rest"
proof -
  have ok: "getNumReports badRow (exporterAfter (Pool ''db'') 0) = Inr (3, 0)"
    by (simp add: getNumReports_def badRow_def)
  have small: "\<bar>3 :: int\<bar> \<le> 2 ^ 53" "\<bar>0 :: int\<bar> \<le> 2 ^ 53" by simp_all
  from sendNumReports_samples [of "Pool ''db''" 0 3 0 badRow] ok small
  obtain rest m' where v: "float64 3 = 3" "float64 0 = 0"
    and r: "scrape badRow (exporterAfter (Pool ''db'') 0) =
       Inr (ConstMetric (numReports (exporterAfter (Pool ''db'') 0)) GaugeValue (float64 3) [''true''] #
            ConstMetric (numReports (exporterAfter (Pool ''db'') 0)) GaugeValue (float64 0) [''false''] #
            rest, m')"
    and n: "\<forall>x\<in>set rest. metricName m' x \<noteq> ''mastodon_exporter_num_reports''"
    by auto
  from n have "ConstMetric (numReports (exporterAfter (Pool ''db'') 0)) GaugeValue 3 [''true'']
      \<notin> set rest"
    by (auto simp: fqName_numReports)
  with r v show ?thesis by simp
qed

text \<open>
  Claim C3. Every scrape ends by sending the gauge \<^verbatim>\<open>errors\<close>, once, after every other
  metric, whichever queries failed; read after the scrape, the gauge holds the number of
  families whose query failed in that scrape (zero when none did).
\<close>

theorem scrape_errors_gauge:
  "\<exists>ch m'.
     scrape d (exporterAfter p v) = Inr (ch @ [ErrorsGauge], m') \<and>
     ErrorsGauge \<notin> set ch \<and>
     Name (opts (errors m')) = ''errors'' \<and>
     metricName m' ErrorsGauge = ''mastodon_exporter_errors'' \<and>
     gaugeValue m' ErrorsGauge = Some (real (failedQueries d (exporterAfter p v)))"
proof -
  let ?m = "exporterAfter p v"
  let ?a = "case getNumReports d ?m of
              Inl err \<Rightarrow> []
            | Inr (r, u) \<Rightarrow>
                [ConstMetric (numReports ?m) GaugeValue (float64 r) [''true''],
                 ConstMetric (numReports ?m) GaugeValue (float64 u) [''false'']]"
  let ?b = "case getResolvedStats d ?m of Inr (Inr h) \<Rightarrow> [h] | _ \<Rightarrow> []"
  let ?m' = "exporterAfter p (real (failedQueries d ?m))"
  have s: "scrape d ?m = Inr ((?a @ ?b) @ [ErrorsGauge], ?m')"
    by (simp add: scrape_eq)
  have a: "ErrorsGauge \<notin> set ?a" by (simp split: sum.splits prod.splits)
  have b: "ErrorsGauge \<notin> set ?b"
  proof (cases "getResolvedStats d ?m")
    case (Inl e)
    then show ?thesis by simp
  next
    case (Inr x)
    show ?thesis
    proof (cases x)
      case (Inl e)
      with Inr show ?thesis by simp
    next
      case h: (Inr h)
      with Inr have "getResolvedStats d ?m = Inr (Inr h)" by simp
      from getResolvedStats_histogram [OF this] Inr h show ?thesis by auto
    qed
  qed
  have n: "Name (opts (errors ?m')) = ''errors''"
    by (simp add: descs_exporterAfter newExporter_def NewGauge_def)
  have g: "gaugeValue ?m' ErrorsGauge = Some (real (failedQueries d ?m))"
    by (simp add: descs_exporterAfter)
  from s a b n g show ?thesis
    using gaugeName_exporterAfter [of p "real (failedQueries d ?m)"]
    by (intro exI [of _ "?a @ ?b"] exI [of _ ?m']) simp
qed

theorem scrape_errors_gauge_witness:
  "\<exists>ch m'.
     scrape badRow (exporterAfter (Pool ''db'') 2) = Inr (ch @ [ErrorsGauge], m') \<and>
     ErrorsGauge \<notin> set ch \<and> gaugeValue m' ErrorsGauge = Some 1"
proof -
  have "failedQueries badRow (exporterAfter (Pool ''db'') 2) = 1"
    by (simp add: failedQueries_def getNumReports_def getResolvedStats_def CollectRows_def
        scanRow_def badRow_def)
  with scrape_errors_gauge [of badRow "Pool ''db''" 2] show ?thesis by auto
qed

text \<open>
  Claim C5. When both queries fail, the scrape sends the gauge \<^verbatim>\<open>errors\<close> and nothing
  else, and the gauge holds 2.
\<close>

theorem scrape_total_failure:
  "isl (getNumReports d (exporterAfter p v)) \<and>
   (\<exists>e. getResolvedStats d (exporterAfter p v) = Inr (Inl e)) \<longrightarrow>
     scrape d (exporterAfter p v) = Inr ([ErrorsGauge], exporterAfter p 2) \<and>
     gaugeValue (exporterAfter p 2) ErrorsGauge = Some 2"
  by (auto simp: scrape_eq failedQueries_def descs_exporterAfter isl_def)

theorem scrape_total_failure_witness:
  "scrape allDown (exporterAfter (Pool ''db'') 0) = Inr ([ErrorsGauge], exporterAfter (Pool ''db'') 2) \<and>
   gaugeValue (exporterAfter (Pool ''db'') 2) ErrorsGauge = Some 2"
proof -
  have "isl (getNumReports allDown (exporterAfter (Pool ''db'') 0))"
    by (simp add: getNumReports_def allDown_def)
  moreover have "\<exists>e. getResolvedStats allDown (exporterAfter (Pool ''db'') 0) = Inr (Inl e)"
    by (simp add: getResolvedStats_def allDown_def)
  ultimately show ?thesis
    using scrape_total_failure [of allDown "Pool ''db''" 0] by blast
qed

text \<open>
  Claim C2. When exactly one of the two queries fails, the gauge \<^verbatim>\<open>errors\<close> holds 1, no
  sample of the failed family is sent and the samples of the other family are: if the
  report query fails and \<^verbatim>\<open>getResolvedStats\<close> returns the histogram \<open>h\<close> (built from all
  rows of the query), the scrape sends \<open>h\<close> and the gauge; if the report query answers
  \<open>(r, u)\<close> and \<^verbatim>\<open>getResolvedStats\<close> fails, the scrape sends the two samples of
  \<^verbatim>\<open>num_reports\<close> and the gauge. The second family is tried after the first has failed,
  and the first is sent before the second fails.
\<close>

theorem scrape_partial_failure:
  "(isl (getNumReports d (exporterAfter p v)) \<and>
    getResolvedStats d (exporterAfter p v) = Inr (Inr h) \<longrightarrow>
      scrape d (exporterAfter p v) = Inr ([h, ErrorsGauge], exporterAfter p 1) \<and>
      (\<exists>rs. resolutionRows d = Inr rs \<and>
            resolvedMetricFromNums (exporterAfter p v) (map projr (scanned rs)) = Inr h)) \<and>
   (getNumReports d (exporterAfter p v) = Inr (r, u) \<and>
    (\<exists>e. getResolvedStats d (exporterAfter p v) = Inr (Inl e)) \<longrightarrow>
      scrape d (exporterAfter p v) =
        Inr ([ConstMetric (numReports (exporterAfter p v)) GaugeValue (float64 r) [''true''],
              ConstMetric (numReports (exporterAfter p v)) GaugeValue (float64 u) [''false''],
              ErrorsGauge],
             exporterAfter p 1)) \<and>
   gaugeValue (exporterAfter p 1) ErrorsGauge = Some 1"
proof (intro conjI impI)
  assume h: "isl (getNumReports d (exporterAfter p v)) \<and>
             getResolvedStats d (exporterAfter p v) = Inr (Inr h)"
  then show "scrape d (exporterAfter p v) = Inr ([h, ErrorsGauge], exporterAfter p 1)"
    by (auto simp: scrape_eq failedQueries_def isl_def)
  from h show "\<exists>rs. resolutionRows d = Inr rs \<and>
            resolvedMetricFromNums (exporterAfter p v) (map projr (scanned rs)) = Inr h"
    using getResolvedStats_Inr [of d p v h] by blast
next
  assume "getNumReports d (exporterAfter p v) = Inr (r, u) \<and>
          (\<exists>e. getResolvedStats d (exporterAfter p v) = Inr (Inl e))"
  then show "scrape d (exporterAfter p v) =
        Inr ([ConstMetric (numReports (exporterAfter p v)) GaugeValue (float64 r) [''true''],
              ConstMetric (numReports (exporterAfter p v)) GaugeValue (float64 u) [''false''],
              ErrorsGauge],
             exporterAfter p 1)"
    by (auto simp: scrape_eq failedQueries_def)
next
  show "gaugeValue (exporterAfter p 1) ErrorsGauge = Some 1"
    by (simp add: descs_exporterAfter)
qed


theorem scrape_partial_failure_witness:
  "(\<exists>h. getResolvedStats reportsDown (exporterAfter (Pool ''db'') 0) = Inr (Inr h) \<and>
        scrape reportsDown (exporterAfter (Pool ''db'') 0) =
          Inr ([h, ErrorsGauge], exporterAfter (Pool ''db'') 1)) \<and>
   scrape badRow (exporterAfter (Pool ''db'') 0) =
     Inr ([ConstMetric (numReports (exporterAfter (Pool ''db'') 0)) GaugeValue 3 [''true''],
           ConstMetric (numReports (exporterAfter (Pool ''db'') 0)) GaugeValue 0 [''false''],
           ErrorsGauge],
          exporterAfter (Pool ''db'') 1)"
proof -
  let ?m = "exporterAfter (Pool ''db'') 0"
  have a1: "isl (getNumReports reportsDown ?m)"
    by (simp add: getNumReports_def reportsDown_def)
  obtain h where a2: "getResolvedStats reportsDown ?m = Inr (Inr h)"
    by (simp add: getResolvedStats_def CollectRows_def scanRow_def reportsDown_def
        resolvedMetricFromNums_eq)
  have b1: "getNumReports badRow ?m = Inr (3, 0)"
    by (simp add: getNumReports_def badRow_def)
  have b2: "\<exists>e. getResolvedStats badRow ?m = Inr (Inl e)"
    by (simp add: getResolvedStats_def CollectRows_def scanRow_def badRow_def)
  from a1 a2 scrape_partial_failure [of reportsDown "Pool ''db''" 0 h]
  have "scrape reportsDown ?m = Inr ([h, ErrorsGauge], exporterAfter (Pool ''db'') 1)"
    by blast
  moreover from b1 b2 scrape_partial_failure [of badRow "Pool ''db''" 0 _ 3 0]
  have "scrape badRow ?m =
     Inr ([ConstMetric (numReports ?m) GaugeValue 3 [''true''],
           ConstMetric (numReports ?m) GaugeValue 0 [''false''],
           ErrorsGauge],
          exporterAfter (Pool ''db'') 1)"
    by (simp add: float64_exact)
  ultimately show ?thesis using a2 by blast
qed

text \<open>
  Claim C9, as stated: a scrape leaves nothing behind but the descriptors built at
  startup; no error tally persists. The exporter holds the gauge \<^verbatim>\<open>errors\<close> as a field
  and \<^verbatim>\<open>scrape\<close> writes it: after a scrape with both queries failing, the exporter is not
  the one \<open>newExporter\<close> made; its gauge holds 2 and no longer 0.
\<close>

theorem scrape_stateless_counterexample:
  "exporterOf (scrape allDown (newExporter (Pool ''db''))) = Some (exporterAfter (Pool ''db'') 2) \<and>
   exporterAfter (Pool ''db'') 2 \<noteq> newExporter (Pool ''db'') \<and>
   val (errors (newExporter (Pool ''db''))) = 0 \<and>
   val (errors (exporterAfter (Pool ''db'') 2)) = 2"
proof -
  have n: "newExporter (Pool ''db'') = exporterAfter (Pool ''db'') 0"
    by (simp add: exporterAfter_def newExporter_def NewGauge_def Set_gauge_def)
  have f: "failedQueries allDown (exporterAfter (Pool ''db'') 0) = 2"
    by (simp add: failedQueries_def getNumReports_def getResolvedStats_def allDown_def)
  have v: "val (errors (exporterAfter (Pool ''db'') 0)) = 0"
    "val (errors (exporterAfter (Pool ''db'') 2)) = 2"
    by (simp_all add: descs_exporterAfter)
  then have "exporterAfter (Pool ''db'') 2 \<noteq> exporterAfter (Pool ''db'') 0"
    by (metis zero_neq_numeral)
  with f v show ?thesis
    by (simp add: n exporterOf_def scrape_eq)
qed

text \<open>
  Claim C9, amended. Besides the pool handle and the descriptors, which no scrape
  changes, the exporter keeps one mutable value from one scrape to the next: the gauge
  \<^verbatim>\<open>errors\<close>, which after a scrape holds that scrape's number of failed queries. Every
  scrape overwrites the gauge with its own count before sending it, so what a scrape
  sends and the exporter it leaves do not depend on the value the gauge held before
  (\<open>w\<close> or \<open>v\<close>); \<^verbatim>\<open>numErrors\<close>, \<^verbatim>\<open>sum\<close> and \<^verbatim>\<open>buckets\<close> are local to one call.
\<close>

theorem scrape_keeps_gauge_only:
  "newExporter p = exporterAfter p 0 \<and>
   (\<exists>ch. scrape d (exporterAfter p v) =
            Inr (ch, exporterAfter p (real (failedQueries d (exporterAfter p v)))) \<and>
          scrape d (exporterAfter p w) = scrape d (exporterAfter p v)) \<and>
   db (exporterAfter p v) = db (newExporter p) \<and>
   numReports (exporterAfter p v) = numReports (newExporter p) \<and>
   resolvedTimeSeconds (exporterAfter p v) = resolvedTimeSeconds (newExporter p) \<and>
   opts (errors (exporterAfter p v)) = opts (errors (newExporter p)) \<and>
   val (errors (exporterAfter p v)) = v"
proof (intro conjI)
  show "newExporter p = exporterAfter p 0"
    by (simp add: exporterAfter_def newExporter_def NewGauge_def Set_gauge_def)
  have "scrape d (exporterAfter p w) = scrape d (exporterAfter p v)"
    by (simp add: scrape_eq getNumReports_def descs_exporterAfter
        getResolvedStats_same [of d p w v] failedQueries_same [of d p w v]
        cong: sum.case_cong prod.case_cong)
  then show "\<exists>ch. scrape d (exporterAfter p v) =
            Inr (ch, exporterAfter p (real (failedQueries d (exporterAfter p v)))) \<and>
          scrape d (exporterAfter p w) = scrape d (exporterAfter p v)"
    by (simp add: scrape_eq)
qed (simp_all add: descs_exporterAfter)

end
